theory Spec2Isabelle
  imports Main
begin

section \<open>Data model\<close>

text \<open>
  A \<^verbatim>\<open>datetime\<close> is modelled as the number of microseconds since the epoch (the
  resolution of Python's \<^verbatim>\<open>datetime\<close>); a \<^verbatim>\<open>timedelta\<close> is a difference of two such
  values. Strings are ASCII texts. A JSON object (\<^verbatim>\<open>data\<close>, \<^verbatim>\<open>notify_prefs\<close>) is an
  association list with opaque values; the empty list is \<^verbatim>\<open>{}\<close>.
\<close>

type_synonym datetime = int
type_synonym timedelta = int
type_synonym json = "(string \<times> string) list"

datatype error =
    ValueError string
  | RuntimeError string
  | HTTPException nat string

record UserAccount =
  account_id :: nat
  username :: string
  role :: string

text \<open>
  The columns of \<^verbatim>\<open>UserProfile\<close> that \<^verbatim>\<open>services/profiles.py\<close> reads or writes.
  The column \<^verbatim>\<open>user_id\<close> is the key of the profiles table below, so it is not a field of
  the row. \<^verbatim>\<open>updated_at\<close> is only read there (by \<^verbatim>\<open>_to_out\<close>); no function of the
  service assigns it.
\<close>

record UserProfile =
  email :: "string option"
  email_verified_at :: "datetime option"
  phone_e164 :: "string option"
  phone_verified_at :: "datetime option"
  verify_email_code_hash :: "string option"
  verify_phone_code_hash :: "string option"
  verify_expires_at :: "datetime option"
  verify_requested_at :: "datetime option"
  first_name :: "string option"
  last_name :: "string option"
  display_name :: "string option"
  avatar_url :: "string option"
  bio :: "string option"
  timezone :: "string option"
  locale_code :: "string option"
  marketing_opt_in :: "bool option"
  notify_prefs :: "json option"
  updated_at :: "datetime option"

record UpdateProfilePayload =
  payload_email :: "string option"
  payload_phoneE164 :: "string option"
  payload_firstName :: "string option"
  payload_lastName :: "string option"
  payload_displayName :: "string option"
  payload_avatarUrl :: "string option"
  payload_bio :: "string option"
  payload_timezone :: "string option"
  payload_locale :: "string option"
  payload_marketingOptIn :: "bool option"
  payload_notifyPrefs :: "json option"

record UserProfileOut =
  out_username :: string
  out_role :: string
  out_email :: "string option"
  out_emailVerifiedAt :: "datetime option"
  out_phoneE164 :: "string option"
  out_phoneVerifiedAt :: "datetime option"
  out_firstName :: "string option"
  out_lastName :: "string option"
  out_displayName :: "string option"
  out_avatarUrl :: "string option"
  out_bio :: "string option"
  out_timezone :: "string option"
  out_locale :: "string option"
  out_marketingOptIn :: bool
  out_notifyPrefs :: json
  out_updatedAt :: "datetime option"

record Notification =
  notif_id :: string
  notif_user_id :: nat
  notif_type :: string
  notif_data :: "json option"
  created_at :: datetime
  read_at :: "datetime option"

record NotificationOut =
  nout_id :: string
  nout_type :: string
  nout_data :: json
  nout_createdAt :: datetime
  nout_readAt :: "datetime option"

text \<open>
  The database: the accounts table (searched by username), the profiles table keyed by
  \<^verbatim>\<open>user_id\<close> (one row per account), and the notifications table.
\<close>

record database =
  accounts :: "UserAccount list"
  profiles :: "nat \<rightharpoonup> UserProfile"
  notifications :: "Notification list"

text \<open>
  A unit of work (\<^verbatim>\<open>async with self._session_factory() as session\<close>): the session
  sees its own pending writes; only \<^verbatim>\<open>commit\<close> makes them the stored state, and leaving
  the block (by \<^verbatim>\<open>return\<close> or by an exception) without a commit discards them.
\<close>

record session =
  committed :: database
  pending :: database

definition session_factory :: "database \<Rightarrow> session" where
  "session_factory db = \<lparr>committed = db, pending = db\<rparr>"

text \<open>Writing the row of user \<open>uid\<close>, as the session holds it, to the pending state.\<close>

definition session_flush :: "nat \<Rightarrow> UserProfile \<Rightarrow> session \<Rightarrow> session" where
  "session_flush uid profile s =
     s\<lparr>pending := (pending s)\<lparr>profiles := (profiles (pending s))(uid \<mapsto> profile)\<rparr>\<rparr>"

definition session_commit :: "nat \<Rightarrow> UserProfile \<Rightarrow> session \<Rightarrow> session" where
  "session_commit uid profile s =
     (let s' = session_flush uid profile s in s'\<lparr>committed := pending s'\<rparr>)"

definition session_exit :: "session \<Rightarrow> database" where
  "session_exit s = committed s"

definition session_refresh :: "session \<Rightarrow> nat \<Rightarrow> UserProfile \<Rightarrow> UserProfile" where
  "session_refresh s uid profile =
     (case profiles (committed s) uid of Some row \<Rightarrow> row | None \<Rightarrow> profile)"

section \<open>Python primitives\<close>

definition CODE_TTL_MINUTES :: int where
  "CODE_TTL_MINUTES = 15"

definition REQUEST_COOLDOWN_SECONDS :: int where
  "REQUEST_COOLDOWN_SECONDS = 60"

definition timedelta_minutes :: "int \<Rightarrow> timedelta" where
  "timedelta_minutes m = m * 60 * 1000000"

text \<open>
  \<^verbatim>\<open>d.total_seconds() < secs\<close> for a whole number of seconds \<^verbatim>\<open>secs\<close>. The
  \<^verbatim>\<open>timedelta\<close> is a whole number of microseconds, so the comparison of the quotient
  with \<^verbatim>\<open>secs\<close> is the comparison of the microseconds with \<^verbatim>\<open>secs\<close> million.
\<close>

definition total_seconds_less :: "timedelta \<Rightarrow> int \<Rightarrow> bool" where
  "total_seconds_less d secs = (d < secs * 1000000)"

text \<open>Truthiness of an optional string: \<^verbatim>\<open>None\<close> and the empty string are false.\<close>

fun truthy_str :: "string option \<Rightarrow> bool" where
  "truthy_str None = False"
| "truthy_str (Some s) = (s \<noteq> [])"

text \<open>\<^verbatim>\<open>s or None\<close> for a string \<^verbatim>\<open>s\<close>.\<close>

definition or_None :: "string \<Rightarrow> string option" where
  "or_None s = (if s = [] then None else Some s)"

text \<open>\<^verbatim>\<open>d or {}\<close> for an optional JSON object.\<close>

fun or_empty :: "json option \<Rightarrow> json" where
  "or_empty None = []"
| "or_empty (Some d) = d"

text \<open>\<^verbatim>\<open>bool(x)\<close> for an optional boolean.\<close>

fun py_bool :: "bool option \<Rightarrow> bool" where
  "py_bool None = False"
| "py_bool (Some b) = b"

definition lower_char :: "char \<Rightarrow> char" where
  "lower_char c =
     (let n = (of_char c :: nat) in if 65 \<le> n \<and> n \<le> 90 then char_of (n + 32) else c)"

definition lower :: "string \<Rightarrow> string" where
  "lower s = map lower_char s"

text \<open>The ASCII characters for which \<^verbatim>\<open>str.isspace\<close> holds.\<close>

definition is_space :: "char \<Rightarrow> bool" where
  "is_space c =
     (let n = (of_char c :: nat) in (9 \<le> n \<and> n \<le> 13) \<or> (28 \<le> n \<and> n \<le> 32))"

definition strip :: "string \<Rightarrow> string" where
  "strip s = rev (dropWhile is_space (rev (dropWhile is_space s)))"

text \<open>
  \<^verbatim>\<open>_generate_code\<close>: \<^verbatim>\<open>f"{random.randint(0, 999999):06d}"\<close>. The random draw is the
  argument \<open>r\<close>; the result is its decimal numeral, padded with zeros on the left to at
  least six characters.
\<close>

definition digit_char :: "nat \<Rightarrow> char" where
  "digit_char d = char_of (48 + d)"

fun decimal :: "nat \<Rightarrow> string" where
  "decimal n = (if n < 10 then [digit_char n] else decimal (n div 10) @ [digit_char (n mod 10)])"

definition generate_code :: "nat \<Rightarrow> string" where
  "generate_code r = (let d = decimal r in replicate (6 - length d) (CHR ''0'') @ d)"

declare decimal.simps [simp del]

section \<open>The profile service (\<^verbatim>\<open>services/profiles.py\<close>)\<close>

text \<open>
  Modelled from the spec: the row that \<^verbatim>\<open>UserProfile(user_id=user_id)\<close> creates. The
  model class and its column defaults are not among the sources; the spec calls the
  lazily created row "an empty Profile row", so every nullable column starts as
  \<^verbatim>\<open>None\<close>.
\<close>

definition new_UserProfile :: UserProfile where
  "new_UserProfile =
     \<lparr>email = None, email_verified_at = None, phone_e164 = None,
      phone_verified_at = None, verify_email_code_hash = None, verify_phone_code_hash = None,
      verify_expires_at = None, verify_requested_at = None, first_name = None,
      last_name = None, display_name = None, avatar_url = None, bio = None,
      timezone = None, locale_code = None, marketing_opt_in = None, notify_prefs = None,
      updated_at = None\<rparr>"

text \<open>\<^verbatim>\<open>select(UserAccount).where(UserAccount.username == username)\<close>, first row.\<close>

definition select_account :: "session \<Rightarrow> string \<Rightarrow> UserAccount option" where
  "select_account s uname = find (\<lambda>a. username a = uname) (accounts (pending s))"

definition get_or_create_profile :: "session \<Rightarrow> nat \<Rightarrow> UserProfile \<times> session" where
  "get_or_create_profile s uid =
     (case profiles (pending s) uid of
        None \<Rightarrow> (let profile = new_UserProfile in (profile, session_flush uid profile s))
      | Some profile \<Rightarrow> (profile, s))"

definition to_out :: "UserAccount \<Rightarrow> UserProfile \<Rightarrow> UserProfileOut" where
  "to_out account profile =
     \<lparr>out_username = username account,
      out_role = role account,
      out_email = email profile,
      out_emailVerifiedAt = email_verified_at profile,
      out_phoneE164 = phone_e164 profile,
      out_phoneVerifiedAt = phone_verified_at profile,
      out_firstName = first_name profile,
      out_lastName = last_name profile,
      out_displayName = display_name profile,
      out_avatarUrl = avatar_url profile,
      out_bio = bio profile,
      out_timezone = timezone profile,
      out_locale = locale_code profile,
      out_marketingOptIn = py_bool (marketing_opt_in profile),
      out_notifyPrefs = or_empty (notify_prefs profile),
      out_updatedAt = updated_at profile\<rparr>"

subsection \<open>\<^verbatim>\<open>update_profile\<close>\<close>

text \<open>Lines 51 to 56: a changed email resets the email verification.\<close>

definition update_email :: "UpdateProfilePayload \<Rightarrow> UserProfile \<Rightarrow> UserProfile" where
  "update_email payload profile =
     (case payload_email payload of
        None \<Rightarrow> profile
      | Some e \<Rightarrow>
          if Some e \<noteq> email profile
          then profile\<lparr>email := or_None (strip (lower e)),
                       email_verified_at := None,
                       verify_email_code_hash := None,
                       verify_expires_at := None,
                       verify_requested_at := None\<rparr>
          else profile)"

text \<open>Lines 57 to 62: a changed phone number resets the phone verification.\<close>

definition update_phone :: "UpdateProfilePayload \<Rightarrow> UserProfile \<Rightarrow> UserProfile" where
  "update_phone payload profile =
     (case payload_phoneE164 payload of
        None \<Rightarrow> profile
      | Some ph \<Rightarrow>
          if Some ph \<noteq> phone_e164 profile
          then profile\<lparr>phone_e164 := or_None (strip ph),
                       phone_verified_at := None,
                       verify_phone_code_hash := None,
                       verify_expires_at := None,
                       verify_requested_at := None\<rparr>
          else profile)"

text \<open>\<^verbatim>\<open>if v is not None: profile.field = v\<close>, as the new value of the field.\<close>

fun if_present :: "'a option \<Rightarrow> 'a option \<Rightarrow> 'a option" where
  "if_present None old = old"
| "if_present (Some v) old = Some v"

text \<open>Lines 64 to 81: the plain fields, each written only when present.\<close>

definition update_fields :: "UpdateProfilePayload \<Rightarrow> UserProfile \<Rightarrow> UserProfile" where
  "update_fields payload profile =
     profile\<lparr>first_name := if_present (payload_firstName payload) (first_name profile),
             last_name := if_present (payload_lastName payload) (last_name profile),
             display_name := if_present (payload_displayName payload) (display_name profile),
             avatar_url := if_present (payload_avatarUrl payload) (avatar_url profile),
             bio := if_present (payload_bio payload) (bio profile),
             timezone := if_present (payload_timezone payload) (timezone profile),
             locale_code := if_present (payload_locale payload) (locale_code profile),
             marketing_opt_in :=
               (case payload_marketingOptIn payload of
                  None \<Rightarrow> marketing_opt_in profile
                | Some b \<Rightarrow> Some (py_bool (Some b))),
             notify_prefs := if_present (payload_notifyPrefs payload) (notify_prefs profile)\<rparr>"

definition update_profile ::
  "database \<Rightarrow> string \<Rightarrow> UpdateProfilePayload \<Rightarrow> (error + UserProfileOut) \<times> database" where
  "update_profile db uname payload =
     (let session = session_factory db in
      case select_account session uname of
        None \<Rightarrow> (Inl (ValueError ''Account not found''), session_exit session)
      | Some account \<Rightarrow>
          (case get_or_create_profile session (account_id account) of
             (profile0, session1) \<Rightarrow>
               let profile1 = update_email payload profile0;
                   profile2 = update_phone payload profile1;
                   profile3 = update_fields payload profile2;
                   session2 = session_commit (account_id account) profile3 session1;
                   profile4 = session_refresh session2 (account_id account) profile3
               in (Inr (to_out account profile4), session_exit session2)))"

subsection \<open>Requesting a code\<close>

text \<open>
  \<^verbatim>\<open>hash_password\<close> and \<^verbatim>\<open>verify_password\<close> come from the \<^verbatim>\<open>security\<close> module, which
  is not among the sources: they are the parameters \<open>hash_password\<close> and
  \<open>verify_password\<close> of the functions below. \<open>now\<close> is the value of \<^verbatim>\<open>utc_now()\<close> and
  \<open>r\<close> the value of \<^verbatim>\<open>random.randint(0, 999999)\<close>.
\<close>

text \<open>Lines 95 and 130: the rate limit on the shared request timestamp.\<close>

definition rate_limited :: "datetime \<Rightarrow> UserProfile \<Rightarrow> bool" where
  "rate_limited now profile =
     (case verify_requested_at profile of
        None \<Rightarrow> False
      | Some t \<Rightarrow> total_seconds_less (now - t) REQUEST_COOLDOWN_SECONDS)"

definition request_email_code ::
  "(string \<Rightarrow> string) \<Rightarrow> datetime \<Rightarrow> nat \<Rightarrow> database \<Rightarrow> string \<Rightarrow> string
     \<Rightarrow> (error + unit) \<times> database" where
  "request_email_code hash_password now r db uname new_email =
     (let session = session_factory db in
      case select_account session uname of
        None \<Rightarrow> (Inl (ValueError ''Account not found''), session_exit session)
      | Some account \<Rightarrow>
          (case get_or_create_profile session (account_id account) of
             (profile, session1) \<Rightarrow>
               if rate_limited now profile
               then (Inl (RuntimeError ''Please wait before requesting another code''),
                     session_exit session1)
               else
                 let code = generate_code r;
                     profile' = profile\<lparr>email := Some (strip (lower new_email)),
                                        verify_email_code_hash := Some (hash_password code),
                                        verify_phone_code_hash := None,
                                        verify_expires_at :=
                                          Some (now + timedelta_minutes CODE_TTL_MINUTES),
                                        verify_requested_at := Some now\<rparr>
                 in (Inr (), session_exit (session_commit (account_id account) profile' session1))))"

definition request_phone_code ::
  "(string \<Rightarrow> string) \<Rightarrow> datetime \<Rightarrow> nat \<Rightarrow> database \<Rightarrow> string \<Rightarrow> string
     \<Rightarrow> (error + unit) \<times> database" where
  "request_phone_code hash_password now r db uname new_phone =
     (let session = session_factory db in
      case select_account session uname of
        None \<Rightarrow> (Inl (ValueError ''Account not found''), session_exit session)
      | Some account \<Rightarrow>
          (case get_or_create_profile session (account_id account) of
             (profile, session1) \<Rightarrow>
               if rate_limited now profile
               then (Inl (RuntimeError ''Please wait before requesting another code''),
                     session_exit session1)
               else
                 let code = generate_code r;
                     profile' = profile\<lparr>phone_e164 := Some (strip new_phone),
                                        verify_phone_code_hash := Some (hash_password code),
                                        verify_email_code_hash := None,
                                        verify_expires_at :=
                                          Some (now + timedelta_minutes CODE_TTL_MINUTES),
                                        verify_requested_at := Some now\<rparr>
                 in (Inr (), session_exit (session_commit (account_id account) profile' session1))))"

subsection \<open>Verifying a code\<close>

text \<open>
  Lines 112 and 147:
  \<^verbatim>\<open>not code_hash or not profile.verify_expires_at or profile.verify_expires_at < now\<close>.
\<close>

definition no_usable_code :: "datetime \<Rightarrow> string option \<Rightarrow> datetime option \<Rightarrow> bool" where
  "no_usable_code now code_hash expires =
     (\<not> truthy_str code_hash \<or> (case expires of None \<Rightarrow> True | Some t \<Rightarrow> t < now))"

definition verify_email ::
  "(string \<Rightarrow> string \<Rightarrow> bool) \<Rightarrow> datetime \<Rightarrow> database \<Rightarrow> string \<Rightarrow> string
     \<Rightarrow> (error + bool) \<times> database" where
  "verify_email verify_password now db uname code =
     (let session = session_factory db in
      case select_account session uname of
        None \<Rightarrow> (Inl (ValueError ''Account not found''), session_exit session)
      | Some account \<Rightarrow>
          (case get_or_create_profile session (account_id account) of
             (profile, session1) \<Rightarrow>
               if no_usable_code now (verify_email_code_hash profile) (verify_expires_at profile)
               then (Inr False, session_exit session1)
               else if \<not> verify_password code (the (verify_email_code_hash profile))
               then (Inr False, session_exit session1)
               else
                 let profile' = profile\<lparr>email_verified_at := Some now,
                                        verify_email_code_hash := None,
                                        verify_expires_at := None,
                                        verify_requested_at := None\<rparr>
                 in (Inr True, session_exit (session_commit (account_id account) profile' session1))))"

definition verify_phone ::
  "(string \<Rightarrow> string \<Rightarrow> bool) \<Rightarrow> datetime \<Rightarrow> database \<Rightarrow> string \<Rightarrow> string
     \<Rightarrow> (error + bool) \<times> database" where
  "verify_phone verify_password now db uname code =
     (let session = session_factory db in
      case select_account session uname of
        None \<Rightarrow> (Inl (ValueError ''Account not found''), session_exit session)
      | Some account \<Rightarrow>
          (case get_or_create_profile session (account_id account) of
             (profile, session1) \<Rightarrow>
               if no_usable_code now (verify_phone_code_hash profile) (verify_expires_at profile)
               then (Inr False, session_exit session1)
               else if \<not> verify_password code (the (verify_phone_code_hash profile))
               then (Inr False, session_exit session1)
               else
                 let profile' = profile\<lparr>phone_verified_at := Some now,
                                        verify_phone_code_hash := None,
                                        verify_expires_at := None,
                                        verify_requested_at := None\<rparr>
                 in (Inr True, session_exit (session_commit (account_id account) profile' session1))))"

section \<open>The notification feed (\<^verbatim>\<open>routers/notifications.py\<close>)\<close>

definition get_user :: "database \<Rightarrow> string \<Rightarrow> error + UserAccount" where
  "get_user db uname =
     (case find (\<lambda>a. username a = uname) (accounts db) of
        None \<Rightarrow> Inl (HTTPException 404 ''Account not found'')
      | Some user \<Rightarrow> Inr user)"

text \<open>
  \<^verbatim>\<open>.order_by(Notification.created_at.desc())\<close>: newest first. Rows with equal creation
  times stay in table order here; the database leaves their order open, and no property
  below depends on it.
\<close>

definition order_by_created_at_desc :: "Notification list \<Rightarrow> Notification list" where
  "order_by_created_at_desc ns = sort_key (\<lambda>n. - created_at n) ns"

definition select_notifications :: "database \<Rightarrow> nat \<Rightarrow> Notification list" where
  "select_notifications db uid =
     take 50 (order_by_created_at_desc (filter (\<lambda>n. notif_user_id n = uid) (notifications db)))"

definition notification_out :: "Notification \<Rightarrow> NotificationOut" where
  "notification_out n =
     \<lparr>nout_id = notif_id n,
      nout_type = notif_type n,
      nout_data = or_empty (notif_data n),
      nout_createdAt = created_at n,
      nout_readAt = read_at n\<rparr>"

definition list_notifications :: "database \<Rightarrow> string \<Rightarrow> error + NotificationOut list" where
  "list_notifications db uname =
     (case get_user db uname of
        Inl e \<Rightarrow> Inl e
      | Inr user \<Rightarrow> Inr (map notification_out (select_notifications db (account_id user))))"

section \<open>Vocabulary of the properties\<close>

text \<open>
  The row of user \<open>uid\<close> as an operation on the stored state \<open>db\<close> sees it: the stored
  row, or the fresh row that \<^verbatim>\<open>_get_or_create_profile\<close> makes when there is none.
\<close>

definition visible_profile :: "database \<Rightarrow> nat \<Rightarrow> UserProfile" where
  "visible_profile db uid = fst (get_or_create_profile (session_factory db) uid)"

text \<open>The two errors of the service, under the names the specification gives them.\<close>

definition AccountNotFound :: error where
  "AccountNotFound = ValueError ''Account not found''"

definition RateLimited :: error where
  "RateLimited = RuntimeError ''Please wait before requesting another code''"

text \<open>The cooldown and the lifetime of a code, in microseconds.\<close>

definition cooldown :: timedelta where
  "cooldown = REQUEST_COOLDOWN_SECONDS * 1000000"

definition code_ttl :: timedelta where
  "code_ttl = timedelta_minutes CODE_TTL_MINUTES"

text \<open>Newest first: no item is older than a later one.\<close>

definition newest_first :: "NotificationOut list \<Rightarrow> bool" where
  "newest_first items = sorted_wrt (\<lambda>a b. nout_createdAt b \<le> nout_createdAt a) items"

definition strictly_newest_first :: "NotificationOut list \<Rightarrow> bool" where
  "strictly_newest_first items = sorted_wrt (\<lambda>a b. nout_createdAt b < nout_createdAt a) items"

text \<open>The notifications of user \<open>uid\<close>, in table order.\<close>

definition notifications_of :: "database \<Rightarrow> nat \<Rightarrow> Notification list" where
  "notifications_of db uid = filter (\<lambda>n. notif_user_id n = uid) (notifications db)"

section \<open>Sample data\<close>

text \<open>
  A sample hashing utility (the hash of a code is the code behind a prefix) and a small
  database, on which the operations are evaluated: \<^verbatim>\<open>alice\<close> has a verified email and a
  pending email code, \<^verbatim>\<open>bob\<close> a verified phone number and a pending phone code, \<^verbatim>\<open>carol\<close>
  has no profile row yet.
\<close>

fun sample_hash :: "string \<Rightarrow> string" where
  "sample_hash c = ''h:'' @ c"

fun sample_verify :: "string \<Rightarrow> string \<Rightarrow> bool" where
  "sample_verify c h = (h = sample_hash c)"

definition alice :: UserAccount where
  "alice = \<lparr>account_id = 1, username = ''alice'', role = ''member''\<rparr>"

definition bob :: UserAccount where
  "bob = \<lparr>account_id = 2, username = ''bob'', role = ''member''\<rparr>"

definition carol :: UserAccount where
  "carol = \<lparr>account_id = 3, username = ''carol'', role = ''admin''\<rparr>"

definition alice_profile :: UserProfile where
  "alice_profile =
     new_UserProfile\<lparr>email := Some ''a@x.com'',
                      email_verified_at := Some 50,
                      verify_email_code_hash := Some ''h:123456'',
                      verify_expires_at := Some 1000,
                      verify_requested_at := Some 100,
                      first_name := Some ''Alice''\<rparr>"

definition bob_profile :: UserProfile where
  "bob_profile =
     new_UserProfile\<lparr>phone_e164 := Some ''+15550100'',
                      phone_verified_at := Some 60,
                      verify_phone_code_hash := Some ''h:654321'',
                      verify_expires_at := Some 1000,
                      verify_requested_at := Some 100\<rparr>"

definition sample_notifications :: "Notification list" where
  "sample_notifications =
     [\<lparr>notif_id = ''n1'', notif_user_id = 1, notif_type = ''info'', notif_data = None,
       created_at = 10, read_at = None\<rparr>,
      \<lparr>notif_id = ''n2'', notif_user_id = 2, notif_type = ''info'', notif_data = None,
       created_at = 20, read_at = None\<rparr>,
      \<lparr>notif_id = ''n3'', notif_user_id = 1, notif_type = ''warn'',
       notif_data = Some [(''k'', ''v'')], created_at = 30, read_at = Some 40\<rparr>,
      \<lparr>notif_id = ''n4'', notif_user_id = 1, notif_type = ''info'', notif_data = None,
       created_at = 30, read_at = None\<rparr>]"

definition sample_db :: database where
  "sample_db =
     \<lparr>accounts = [alice, bob, carol],
      profiles = [1 \<mapsto> alice_profile, 2 \<mapsto> bob_profile],
      notifications = sample_notifications\<rparr>"

definition sample_payload :: UpdateProfilePayload where
  "sample_payload =
     \<lparr>payload_email = Some ''New@X.com '', payload_phoneE164 = None,
      payload_firstName = None, payload_lastName = Some ''Liddell'',
      payload_displayName = None, payload_avatarUrl = None, payload_bio = None,
      payload_timezone = None, payload_locale = None, payload_marketingOptIn = Some True,
      payload_notifyPrefs = None\<rparr>"

definition phone_payload :: UpdateProfilePayload where
  "phone_payload =
     \<lparr>payload_email = None, payload_phoneE164 = Some ''+15550199'',
      payload_firstName = None, payload_lastName = None,
      payload_displayName = None, payload_avatarUrl = None, payload_bio = None,
      payload_timezone = None, payload_locale = None, payload_marketingOptIn = None,
      payload_notifyPrefs = None\<rparr>"

text \<open>
  A second database, in which \<^verbatim>\<open>alice\<close> has 51 notifications with pairwise different
  creation times, one more than a page holds.
\<close>

fun numbered_notification :: "nat \<Rightarrow> Notification" where
  "numbered_notification i =
     \<lparr>notif_id = ''m'' @ decimal i, notif_user_id = 1, notif_type = ''info'',
      notif_data = None, created_at = 100 + int i, read_at = None\<rparr>"

definition busy_db :: database where
  "busy_db = sample_db\<lparr>notifications := map numbered_notification [0..<51]\<rparr>"

section \<open>What each operation computes\<close>

lemmas session_defs =
  select_account_def get_or_create_profile_def session_factory_def session_commit_def
  session_flush_def session_exit_def session_refresh_def visible_profile_def Let_def

lemma visible_profile_eq:
  "visible_profile db uid = (case profiles db uid of None \<Rightarrow> new_UserProfile | Some p \<Rightarrow> p)"
  by (simp add: session_defs split: option.split)

lemma visible_profile_stored:
  "visible_profile (db\<lparr>profiles := (profiles db)(uid \<mapsto> p)\<rparr>) uid = p"
  by (simp add: visible_profile_eq)

lemma select_account_stored:
  "select_account (session_factory (db\<lparr>profiles := m\<rparr>)) uname
     = select_account (session_factory db) uname"
  by (simp add: session_defs)

lemma no_account:
  assumes "select_account (session_factory db) uname = None"
  shows "verify_email vp now db uname code = (Inl AccountNotFound, db)"
    and "verify_phone vp now db uname code = (Inl AccountNotFound, db)"
    and "request_email_code hp now r db uname v = (Inl AccountNotFound, db)"
    and "request_phone_code hp now r db uname v = (Inl AccountNotFound, db)"
    and "update_profile db uname payload = (Inl AccountNotFound, db)"
  using assms
  by (simp_all add: verify_email_def verify_phone_def request_email_code_def
      request_phone_code_def update_profile_def AccountNotFound_def Let_def session_exit_def)
     (simp_all add: session_factory_def)

lemma verify_email_eq:
  assumes "select_account (session_factory db) uname = Some account"
  shows "verify_email vp now db uname code =
     (let profile = visible_profile db (account_id account) in
      if no_usable_code now (verify_email_code_hash profile) (verify_expires_at profile)
         \<or> \<not> vp code (the (verify_email_code_hash profile))
      then (Inr False, db)
      else (Inr True, db\<lparr>profiles := (profiles db)(account_id account \<mapsto>
              profile\<lparr>email_verified_at := Some now, verify_email_code_hash := None,
                      verify_expires_at := None, verify_requested_at := None\<rparr>)\<rparr>))"
  using assms
  by (cases "profiles db (account_id account)") (simp_all add: verify_email_def session_defs)

lemma verify_phone_eq:
  assumes "select_account (session_factory db) uname = Some account"
  shows "verify_phone vp now db uname code =
     (let profile = visible_profile db (account_id account) in
      if no_usable_code now (verify_phone_code_hash profile) (verify_expires_at profile)
         \<or> \<not> vp code (the (verify_phone_code_hash profile))
      then (Inr False, db)
      else (Inr True, db\<lparr>profiles := (profiles db)(account_id account \<mapsto>
              profile\<lparr>phone_verified_at := Some now, verify_phone_code_hash := None,
                      verify_expires_at := None, verify_requested_at := None\<rparr>)\<rparr>))"
  using assms
  by (cases "profiles db (account_id account)") (simp_all add: verify_phone_def session_defs)

lemma request_email_code_eq:
  assumes "select_account (session_factory db) uname = Some account"
  shows "request_email_code hp now r db uname v =
     (let profile = visible_profile db (account_id account) in
      if rate_limited now profile then (Inl RateLimited, db)
      else (Inr (), db\<lparr>profiles := (profiles db)(account_id account \<mapsto>
              profile\<lparr>email := Some (strip (lower v)),
                      verify_email_code_hash := Some (hp (generate_code r)),
                      verify_phone_code_hash := None,
                      verify_expires_at := Some (now + code_ttl),
                      verify_requested_at := Some now\<rparr>)\<rparr>))"
  using assms
  by (cases "profiles db (account_id account)")
     (simp_all add: request_email_code_def session_defs RateLimited_def code_ttl_def)

lemma request_phone_code_eq:
  assumes "select_account (session_factory db) uname = Some account"
  shows "request_phone_code hp now r db uname v =
     (let profile = visible_profile db (account_id account) in
      if rate_limited now profile then (Inl RateLimited, db)
      else (Inr (), db\<lparr>profiles := (profiles db)(account_id account \<mapsto>
              profile\<lparr>phone_e164 := Some (strip v),
                      verify_phone_code_hash := Some (hp (generate_code r)),
                      verify_email_code_hash := None,
                      verify_expires_at := Some (now + code_ttl),
                      verify_requested_at := Some now\<rparr>)\<rparr>))"
  using assms
  by (cases "profiles db (account_id account)")
     (simp_all add: request_phone_code_def session_defs RateLimited_def code_ttl_def)

lemma update_profile_eq:
  assumes "select_account (session_factory db) uname = Some account"
  shows "update_profile db uname payload =
     (let profile = update_fields payload (update_phone payload
                      (update_email payload (visible_profile db (account_id account))))
      in (Inr (to_out account profile),
          db\<lparr>profiles := (profiles db)(account_id account \<mapsto> profile)\<rparr>))"
  using assms
  by (cases "profiles db (account_id account)") (simp_all add: update_profile_def session_defs)

lemma rate_limited_iff:
  "rate_limited now profile
     \<longleftrightarrow> (\<exists>t. verify_requested_at profile = Some t \<and> now - t < cooldown)"
  by (simp add: rate_limited_def total_seconds_less_def cooldown_def split: option.split)

lemma no_usable_code_iff:
  "no_usable_code now h e
     \<longleftrightarrow> \<not> truthy_str h \<or> e = None \<or> (\<exists>t. e = Some t \<and> t < now)"
  by (auto simp: no_usable_code_def split: option.splits)

lemma update_fields_frame [simp]:
  "email (update_fields payload p) = email p"
  "phone_e164 (update_fields payload p) = phone_e164 p"
  "email_verified_at (update_fields payload p) = email_verified_at p"
  "phone_verified_at (update_fields payload p) = phone_verified_at p"
  "verify_email_code_hash (update_fields payload p) = verify_email_code_hash p"
  "verify_phone_code_hash (update_fields payload p) = verify_phone_code_hash p"
  "verify_expires_at (update_fields payload p) = verify_expires_at p"
  "verify_requested_at (update_fields payload p) = verify_requested_at p"
  by (simp_all add: update_fields_def)

section \<open>Verifying a code\<close>

text \<open>
  C1, as the specification states it, fails: a verification that returns false (here a
  wrong guess for \<^verbatim>\<open>alice\<close>) leaves the pending email code hash in place, and the code it
  belongs to is matched by the next attempt.
\<close>

theorem verify_failure_not_terminal:
  "select_account (session_factory sample_db) ''alice'' = Some alice
   \<and> truthy_str (verify_email_code_hash (visible_profile sample_db 1))
   \<and> fst (verify_email sample_verify 500 sample_db ''alice'' ''000000'') = Inr False
   \<and> verify_email_code_hash
        (visible_profile (snd (verify_email sample_verify 500 sample_db ''alice'' ''000000'')) 1)
       = Some ''h:123456''
   \<and> fst (verify_email sample_verify 600
            (snd (verify_email sample_verify 500 sample_db ''alice'' ''000000''))
            ''alice'' ''123456'') = Inr True"
  by code_simp

text \<open>
  C1, amended: a verification that returns true is terminal for its code: the pending
  hash of the channel is cleared, and every later verification on that channel returns
  false and changes nothing (until a new code is requested). A verification that returns
  false leaves the stored state as it was, the pending hash included.
\<close>

theorem verify_success_terminal:
  assumes "select_account (session_factory db) uname = Some account"
  shows "(fst (verify_email vp now db uname code) = Inr True \<longrightarrow>
            verify_email_code_hash
              (visible_profile (snd (verify_email vp now db uname code)) (account_id account)) = None
            \<and> (\<forall>vp' now' code'.
                  verify_email vp' now' (snd (verify_email vp now db uname code)) uname code'
                    = (Inr False, snd (verify_email vp now db uname code))))
       \<and> (fst (verify_email vp now db uname code) = Inr False \<longrightarrow>
            snd (verify_email vp now db uname code) = db)
       \<and> (fst (verify_phone vp now db uname code) = Inr True \<longrightarrow>
            verify_phone_code_hash
              (visible_profile (snd (verify_phone vp now db uname code)) (account_id account)) = None
            \<and> (\<forall>vp' now' code'.
                  verify_phone vp' now' (snd (verify_phone vp now db uname code)) uname code'
                    = (Inr False, snd (verify_phone vp now db uname code))))
       \<and> (fst (verify_phone vp now db uname code) = Inr False \<longrightarrow>
            snd (verify_phone vp now db uname code) = db)"
proof -
  let ?p = "visible_profile db (account_id account)"
  have email_true: "verify_email_code_hash
              (visible_profile (snd (verify_email vp now db uname code)) (account_id account)) = None
            \<and> (\<forall>vp' now' code'.
                  verify_email vp' now' (snd (verify_email vp now db uname code)) uname code'
                    = (Inr False, snd (verify_email vp now db uname code)))"
    if "fst (verify_email vp now db uname code) = Inr True"
  proof -
    let ?q = "?p\<lparr>email_verified_at := Some now, verify_email_code_hash := None,
                   verify_expires_at := None, verify_requested_at := None\<rparr>"
    let ?db' = "db\<lparr>profiles := (profiles db)(account_id account \<mapsto> ?q)\<rparr>"
    from that have run: "verify_email vp now db uname code = (Inr True, ?db')"
      by (simp add: verify_email_eq [OF assms] Let_def split: if_splits)
    have acc': "select_account (session_factory ?db') uname = Some account"
      using assms by (simp add: select_account_stored)
    have "verify_email vp' now' ?db' uname code' = (Inr False, ?db')" for vp' now' code'
      by (simp add: verify_email_eq [OF acc'] visible_profile_stored no_usable_code_def)
    then show ?thesis
      by (simp add: run visible_profile_stored)
  qed
  have phone_true: "verify_phone_code_hash
              (visible_profile (snd (verify_phone vp now db uname code)) (account_id account)) = None
            \<and> (\<forall>vp' now' code'.
                  verify_phone vp' now' (snd (verify_phone vp now db uname code)) uname code'
                    = (Inr False, snd (verify_phone vp now db uname code)))"
    if "fst (verify_phone vp now db uname code) = Inr True"
  proof -
    let ?q = "?p\<lparr>phone_verified_at := Some now, verify_phone_code_hash := None,
                   verify_expires_at := None, verify_requested_at := None\<rparr>"
    let ?db' = "db\<lparr>profiles := (profiles db)(account_id account \<mapsto> ?q)\<rparr>"
    from that have run: "verify_phone vp now db uname code = (Inr True, ?db')"
      by (simp add: verify_phone_eq [OF assms] Let_def split: if_splits)
    have acc': "select_account (session_factory ?db') uname = Some account"
      using assms by (simp add: select_account_stored)
    have "verify_phone vp' now' ?db' uname code' = (Inr False, ?db')" for vp' now' code'
      by (simp add: verify_phone_eq [OF acc'] visible_profile_stored no_usable_code_def)
    then show ?thesis
      by (simp add: run visible_profile_stored)
  qed
  have email_false: "snd (verify_email vp now db uname code) = db"
    if "fst (verify_email vp now db uname code) = Inr False"
    using that by (auto simp: verify_email_eq [OF assms] Let_def split: if_splits)
  have phone_false: "snd (verify_phone vp now db uname code) = db"
    if "fst (verify_phone vp now db uname code) = Inr False"
    using that by (auto simp: verify_phone_eq [OF assms] Let_def split: if_splits)
  from email_true email_false phone_true phone_false show ?thesis
    by blast
qed

theorem verify_success_terminal_witness:
  "select_account (session_factory sample_db) ''alice'' = Some alice
   \<and> fst (verify_email sample_verify 500 sample_db ''alice'' ''123456'') = Inr True
   \<and> verify_email_code_hash
        (visible_profile (snd (verify_email sample_verify 500 sample_db ''alice'' ''123456'')) 1)
       = None
   \<and> verify_email sample_verify 600
        (snd (verify_email sample_verify 500 sample_db ''alice'' ''123456'')) ''alice'' ''123456''
       = (Inr False, snd (verify_email sample_verify 500 sample_db ''alice'' ''123456''))
   \<and> fst (verify_email sample_verify 500 sample_db ''alice'' ''000000'') = Inr False
   \<and> snd (verify_email sample_verify 500 sample_db ''alice'' ''000000'') = sample_db
   \<and> select_account (session_factory sample_db) ''bob'' = Some bob
   \<and> fst (verify_phone sample_verify 500 sample_db ''bob'' ''654321'') = Inr True
   \<and> verify_phone_code_hash
        (visible_profile (snd (verify_phone sample_verify 500 sample_db ''bob'' ''654321'')) 2)
       = None
   \<and> fst (verify_phone sample_verify 500 sample_db ''bob'' ''111111'') = Inr False
   \<and> snd (verify_phone sample_verify 500 sample_db ''bob'' ''111111'') = sample_db"
proof -
  have a: "select_account (session_factory sample_db) ''alice'' = Some alice"
    by code_simp
  have b: "select_account (session_factory sample_db) ''bob'' = Some bob"
    by code_simp
  have ida: "account_id alice = 1" and idb: "account_id bob = 2"
    by (simp_all add: alice_def bob_def)
  have r1: "fst (verify_email sample_verify 500 sample_db ''alice'' ''123456'') = Inr True"
    by code_simp
  have r2: "fst (verify_email sample_verify 500 sample_db ''alice'' ''000000'') = Inr False"
    by code_simp
  have r3: "fst (verify_phone sample_verify 500 sample_db ''bob'' ''654321'') = Inr True"
    by code_simp
  have r4: "fst (verify_phone sample_verify 500 sample_db ''bob'' ''111111'') = Inr False"
    by code_simp
  show ?thesis
    using a b r1 r2 r3 r4
      verify_success_terminal [OF a, of sample_verify 500 "''123456''"]
      verify_success_terminal [OF a, of sample_verify 500 "''000000''"]
      verify_success_terminal [OF b, of sample_verify 500 "''654321''"]
      verify_success_terminal [OF b, of sample_verify 500 "''111111''"]
    by (simp add: ida idb)
qed

text \<open>
  C2: with a pending, unexpired code for a channel and a matching candidate, the
  verification returns true; afterwards the channel's verified timestamp is \<open>now\<close>, the
  channel's pending hash is cleared, and the shared expiry and request timestamp are
  cleared.
\<close>

theorem verify_success:
  assumes "select_account (session_factory db) uname = Some account"
    and "profiles db (account_id account) = Some profile"
    and "verify_expires_at profile = Some expires"
    and "now \<le> expires"
  shows "(verify_email_code_hash profile = Some h \<and> h \<noteq> [] \<and> vp code h \<longrightarrow>
            fst (verify_email vp now db uname code) = Inr True
            \<and> (\<exists>profile'.
                  profiles (snd (verify_email vp now db uname code)) (account_id account)
                    = Some profile'
                  \<and> email_verified_at profile' = Some now
                  \<and> verify_email_code_hash profile' = None
                  \<and> verify_expires_at profile' = None
                  \<and> verify_requested_at profile' = None))
       \<and> (verify_phone_code_hash profile = Some h \<and> h \<noteq> [] \<and> vp code h \<longrightarrow>
            fst (verify_phone vp now db uname code) = Inr True
            \<and> (\<exists>profile'.
                  profiles (snd (verify_phone vp now db uname code)) (account_id account)
                    = Some profile'
                  \<and> phone_verified_at profile' = Some now
                  \<and> verify_phone_code_hash profile' = None
                  \<and> verify_expires_at profile' = None
                  \<and> verify_requested_at profile' = None))"
proof -
  have vis: "visible_profile db (account_id account) = profile"
    using assms(2) by (simp add: visible_profile_eq)
  show ?thesis
    using assms(3,4)
    by (simp add: verify_email_eq [OF assms(1)] verify_phone_eq [OF assms(1)] vis
        no_usable_code_def)
qed

theorem verify_success_witness:
  "select_account (session_factory sample_db) ''alice'' = Some alice
   \<and> profiles sample_db (account_id alice) = Some alice_profile
   \<and> verify_expires_at alice_profile = Some 1000
   \<and> verify_email_code_hash alice_profile = Some ''h:123456''
   \<and> sample_verify ''123456'' ''h:123456''
   \<and> fst (verify_email sample_verify 1000 sample_db ''alice'' ''123456'') = Inr True
   \<and> (\<exists>profile'.
         profiles (snd (verify_email sample_verify 1000 sample_db ''alice'' ''123456''))
           (account_id alice) = Some profile'
         \<and> email_verified_at profile' = Some 1000
         \<and> verify_email_code_hash profile' = None
         \<and> verify_expires_at profile' = None
         \<and> verify_requested_at profile' = None)
   \<and> select_account (session_factory sample_db) ''bob'' = Some bob
   \<and> profiles sample_db (account_id bob) = Some bob_profile
   \<and> verify_expires_at bob_profile = Some 1000
   \<and> verify_phone_code_hash bob_profile = Some ''h:654321''
   \<and> sample_verify ''654321'' ''h:654321''
   \<and> fst (verify_phone sample_verify 700 sample_db ''bob'' ''654321'') = Inr True
   \<and> (\<exists>profile'.
         profiles (snd (verify_phone sample_verify 700 sample_db ''bob'' ''654321''))
           (account_id bob) = Some profile'
         \<and> phone_verified_at profile' = Some 700
         \<and> verify_phone_code_hash profile' = None
         \<and> verify_expires_at profile' = None
         \<and> verify_requested_at profile' = None)"
proof -
  have a: "select_account (session_factory sample_db) ''alice'' = Some alice"
    by code_simp
  have b: "select_account (session_factory sample_db) ''bob'' = Some bob"
    by code_simp
  have pa: "profiles sample_db (account_id alice) = Some alice_profile"
    by (simp add: sample_db_def alice_def)
  have pb: "profiles sample_db (account_id bob) = Some bob_profile"
    by (simp add: sample_db_def bob_def)
  have ea: "verify_expires_at alice_profile = Some 1000"
    and ha: "verify_email_code_hash alice_profile = Some ''h:123456''"
    by (simp_all add: alice_profile_def)
  have eb: "verify_expires_at bob_profile = Some 1000"
    and hb: "verify_phone_code_hash bob_profile = Some ''h:654321''"
    by (simp_all add: bob_profile_def)
  have le: "(1000::int) \<le> 1000" "(700::int) \<le> 1000"
    by simp_all
  show ?thesis
    using a b pa pb ea ha eb hb
      verify_success [OF a pa ea le(1), of "''h:123456''" sample_verify "''123456''"]
      verify_success [OF b pb eb le(2), of "''h:654321''" sample_verify "''654321''"]
    by simp
qed

text \<open>
  C6: for an existing account, a verification returns false, and raises nothing, when
  the channel has no pending hash, when no expiry is set, or when the expiry has passed;
  the stored state is then left as it was (in the expired case in particular).
\<close>

theorem verify_without_usable_code:
  assumes "select_account (session_factory db) uname = Some account"
  shows "(\<not> truthy_str (verify_email_code_hash (visible_profile db (account_id account)))
          \<or> verify_expires_at (visible_profile db (account_id account)) = None
          \<or> (\<exists>t. verify_expires_at (visible_profile db (account_id account)) = Some t \<and> t < now)
          \<longrightarrow> verify_email vp now db uname code = (Inr False, db))
       \<and> (\<not> truthy_str (verify_phone_code_hash (visible_profile db (account_id account)))
          \<or> verify_expires_at (visible_profile db (account_id account)) = None
          \<or> (\<exists>t. verify_expires_at (visible_profile db (account_id account)) = Some t \<and> t < now)
          \<longrightarrow> verify_phone vp now db uname code = (Inr False, db))"
  by (auto simp: verify_email_eq [OF assms] verify_phone_eq [OF assms] no_usable_code_iff
      Let_def)

theorem verify_without_usable_code_witness:
  "select_account (session_factory sample_db) ''alice'' = Some alice
   \<and> verify_expires_at (visible_profile sample_db (account_id alice)) = Some 1000
   \<and> (1000::int) < 1001
   \<and> verify_email sample_verify 1001 sample_db ''alice'' ''123456'' = (Inr False, sample_db)
   \<and> \<not> truthy_str (verify_phone_code_hash (visible_profile sample_db (account_id alice)))
   \<and> verify_phone sample_verify 500 sample_db ''alice'' ''123456'' = (Inr False, sample_db)
   \<and> select_account (session_factory sample_db) ''carol'' = Some carol
   \<and> verify_expires_at (visible_profile sample_db (account_id carol)) = None
   \<and> verify_email sample_verify 500 sample_db ''carol'' ''123456'' = (Inr False, sample_db)"
proof -
  have a: "select_account (session_factory sample_db) ''alice'' = Some alice"
    by code_simp
  have c: "select_account (session_factory sample_db) ''carol'' = Some carol"
    by code_simp
  have ea: "verify_expires_at (visible_profile sample_db (account_id alice)) = Some 1000"
    by code_simp
  have pa: "\<not> truthy_str (verify_phone_code_hash (visible_profile sample_db (account_id alice)))"
    by code_simp
  have ec: "verify_expires_at (visible_profile sample_db (account_id carol)) = None"
    by code_simp
  show ?thesis
    using a c ea pa ec
      verify_without_usable_code [OF a, of 1001 sample_verify "''123456''"]
      verify_without_usable_code [OF a, of 500 sample_verify "''123456''"]
      verify_without_usable_code [OF c, of 500 sample_verify "''123456''"]
    by simp
qed

section \<open>Requesting a code\<close>

text \<open>
  C3: a successful request through either channel stamps the shared request timestamp;
  for an existing account a request through either channel fails with \<open>RateLimited\<close>
  while that timestamp lies less than the cooldown before \<open>now\<close>, and succeeds once the
  cooldown has elapsed.
\<close>

theorem request_code_cooldown:
  assumes "select_account (session_factory db) uname = Some account"
  shows "(fst (request_email_code hp t r db uname v) = Inr () \<longrightarrow>
            verify_requested_at
              (visible_profile (snd (request_email_code hp t r db uname v)) (account_id account))
              = Some t)
       \<and> (fst (request_phone_code hp t r db uname v) = Inr () \<longrightarrow>
            verify_requested_at
              (visible_profile (snd (request_phone_code hp t r db uname v)) (account_id account))
              = Some t)
       \<and> (verify_requested_at (visible_profile db (account_id account)) = Some t
            \<and> now - t < cooldown \<longrightarrow>
            fst (request_email_code hp now r db uname v) = Inl RateLimited
            \<and> fst (request_phone_code hp now r db uname v) = Inl RateLimited)
       \<and> (verify_requested_at (visible_profile db (account_id account)) = Some t
            \<and> cooldown \<le> now - t \<longrightarrow>
            fst (request_email_code hp now r db uname v) = Inr ()
            \<and> fst (request_phone_code hp now r db uname v) = Inr ())"
  by (auto simp: request_email_code_eq [OF assms] request_phone_code_eq [OF assms]
      rate_limited_iff visible_profile_stored Let_def)

theorem request_code_cooldown_witness:
  "select_account (session_factory sample_db) ''alice'' = Some alice
   \<and> verify_requested_at (visible_profile sample_db (account_id alice)) = Some 100
   \<and> 150 - 100 < cooldown
   \<and> fst (request_email_code sample_hash 150 42 sample_db ''alice'' ''b@x.com'') = Inl RateLimited
   \<and> fst (request_phone_code sample_hash 150 42 sample_db ''alice'' ''+15550111'') = Inl RateLimited
   \<and> cooldown \<le> 60000100 - 100
   \<and> fst (request_email_code sample_hash 60000100 42 sample_db ''alice'' ''b@x.com'') = Inr ()
   \<and> fst (request_phone_code sample_hash 60000100 42 sample_db ''alice'' ''+15550111'') = Inr ()
   \<and> select_account (session_factory sample_db) ''carol'' = Some carol
   \<and> fst (request_phone_code sample_hash 100 42 sample_db ''carol'' ''+15550111'') = Inr ()
   \<and> verify_requested_at
        (visible_profile
           (snd (request_phone_code sample_hash 100 42 sample_db ''carol'' ''+15550111''))
           (account_id carol)) = Some 100
   \<and> fst (request_email_code sample_hash 100 42 sample_db ''carol'' ''c@x.com'') = Inr ()
   \<and> verify_requested_at
        (visible_profile
           (snd (request_email_code sample_hash 100 42 sample_db ''carol'' ''c@x.com''))
           (account_id carol)) = Some 100"
proof -
  have a: "select_account (session_factory sample_db) ''alice'' = Some alice"
    by code_simp
  have c: "select_account (session_factory sample_db) ''carol'' = Some carol"
    by code_simp
  have ta: "verify_requested_at (visible_profile sample_db (account_id alice)) = Some 100"
    by code_simp
  have short: "150 - 100 < cooldown" and long: "cooldown \<le> 60000100 - 100"
    by (simp_all add: cooldown_def REQUEST_COOLDOWN_SECONDS_def)
  have c1: "fst (request_phone_code sample_hash 100 42 sample_db ''carol'' ''+15550111'') = Inr ()"
    by code_simp
  have c2: "fst (request_email_code sample_hash 100 42 sample_db ''carol'' ''c@x.com'') = Inr ()"
    by code_simp
  show ?thesis
    using a c ta short long c1 c2
      request_code_cooldown [OF a, of sample_hash 100 42 "''b@x.com''" 150]
      request_code_cooldown [OF a, of sample_hash 100 42 "''+15550111''" 150]
      request_code_cooldown [OF a, of sample_hash 100 42 "''b@x.com''" 60000100]
      request_code_cooldown [OF a, of sample_hash 100 42 "''+15550111''" 60000100]
      request_code_cooldown [OF c, of sample_hash 100 42 "''+15550111''" 0]
      request_code_cooldown [OF c, of sample_hash 100 42 "''c@x.com''" 0]
    by simp
qed

text \<open>
  C4: for an existing account that is not rate limited, a request stores the row with
  exactly these writes: the channel's value, the channel's hash set to
  \<open>hash_password\<close> of the generated code, the other channel's hash cleared, the shared
  expiry set to \<open>now\<close> plus 15 minutes (900000000 microseconds) and the shared request
  timestamp set to \<open>now\<close>. The generated code reaches the stored state only as the
  argument of \<open>hash_password\<close>.
\<close>

theorem request_code_stores:
  assumes "select_account (session_factory db) uname = Some account"
    and "\<not> rate_limited now (visible_profile db (account_id account))"
  shows "request_email_code hash_password now r db uname v =
           (Inr (),
            db\<lparr>profiles := (profiles db)(account_id account \<mapsto>
                 (visible_profile db (account_id account))
                   \<lparr>email := Some (strip (lower v)),
                    verify_email_code_hash := Some (hash_password (generate_code r)),
                    verify_phone_code_hash := None,
                    verify_expires_at := Some (now + 900000000),
                    verify_requested_at := Some now\<rparr>)\<rparr>)
       \<and> request_phone_code hash_password now r db uname v =
           (Inr (),
            db\<lparr>profiles := (profiles db)(account_id account \<mapsto>
                 (visible_profile db (account_id account))
                   \<lparr>phone_e164 := Some (strip v),
                    verify_phone_code_hash := Some (hash_password (generate_code r)),
                    verify_email_code_hash := None,
                    verify_expires_at := Some (now + 900000000),
                    verify_requested_at := Some now\<rparr>)\<rparr>)"
  using assms(2)
  by (simp add: request_email_code_eq [OF assms(1)] request_phone_code_eq [OF assms(1)]
      code_ttl_def timedelta_minutes_def CODE_TTL_MINUTES_def)

theorem request_code_stores_witness:
  "select_account (session_factory sample_db) ''bob'' = Some bob
   \<and> \<not> rate_limited 60000100 (visible_profile sample_db (account_id bob))
   \<and> generate_code 42 = ''000042''
   \<and> request_email_code sample_hash 60000100 42 sample_db ''bob'' '' Bob@X.com'' =
       (Inr (),
        sample_db\<lparr>profiles := (profiles sample_db)(account_id bob \<mapsto>
           (visible_profile sample_db (account_id bob))
             \<lparr>email := Some ''bob@x.com'',
              verify_email_code_hash := Some ''h:000042'',
              verify_phone_code_hash := None,
              verify_expires_at := Some 960000100,
              verify_requested_at := Some 60000100\<rparr>)\<rparr>)
   \<and> request_phone_code sample_hash 60000100 42 sample_db ''bob'' '' +15550111 '' =
       (Inr (),
        sample_db\<lparr>profiles := (profiles sample_db)(account_id bob \<mapsto>
           (visible_profile sample_db (account_id bob))
             \<lparr>phone_e164 := Some ''+15550111'',
              verify_phone_code_hash := Some ''h:000042'',
              verify_email_code_hash := None,
              verify_expires_at := Some 960000100,
              verify_requested_at := Some 60000100\<rparr>)\<rparr>)"
proof -
  have b: "select_account (session_factory sample_db) ''bob'' = Some bob"
    by code_simp
  have free: "\<not> rate_limited 60000100 (visible_profile sample_db (account_id bob))"
    by code_simp
  have code: "generate_code 42 = ''000042''"
    by code_simp
  have e: "strip (lower '' Bob@X.com'') = ''bob@x.com''"
    by code_simp
  have p: "strip '' +15550111 '' = ''+15550111''"
    by code_simp
  show ?thesis
    using b free code
      request_code_stores [OF b free, of sample_hash 42 "'' Bob@X.com''"]
      request_code_stores [OF b free, of sample_hash 42 "'' +15550111 ''"]
    by (simp add: e p)
qed

text \<open>
  C10: when a request fails with the rate-limit error, the stored state is left as it
  was.
\<close>

theorem rate_limited_request_changes_nothing:
  "(fst (request_email_code hp now r db uname v) = Inl RateLimited \<longrightarrow>
      snd (request_email_code hp now r db uname v) = db)
   \<and> (fst (request_phone_code hp now r db uname v) = Inl RateLimited \<longrightarrow>
      snd (request_phone_code hp now r db uname v) = db)"
proof (cases "select_account (session_factory db) uname")
  case None
  then show ?thesis
    by (simp add: no_account)
next
  case (Some account)
  then show ?thesis
    by (simp add: request_email_code_eq request_phone_code_eq Let_def)
qed

theorem rate_limited_request_changes_nothing_witness:
  "fst (request_email_code sample_hash 150 42 sample_db ''alice'' ''b@x.com'') = Inl RateLimited
   \<and> snd (request_email_code sample_hash 150 42 sample_db ''alice'' ''b@x.com'') = sample_db
   \<and> fst (request_phone_code sample_hash 150 42 sample_db ''bob'' ''+15550111'') = Inl RateLimited
   \<and> snd (request_phone_code sample_hash 150 42 sample_db ''bob'' ''+15550111'') = sample_db"
proof -
  have e: "fst (request_email_code sample_hash 150 42 sample_db ''alice'' ''b@x.com'')
             = Inl RateLimited"
    by code_simp
  have p: "fst (request_phone_code sample_hash 150 42 sample_db ''bob'' ''+15550111'')
             = Inl RateLimited"
    by code_simp
  show ?thesis
    using e p
      rate_limited_request_changes_nothing [of sample_hash 150 42 sample_db "''alice''" "''b@x.com''"]
      rate_limited_request_changes_nothing [of sample_hash 150 42 sample_db "''bob''" "''+15550111''"]
    by simp
qed

section \<open>Updating the profile\<close>

lemma update_email_changed:
  assumes "payload_email payload = Some e" and "Some e \<noteq> email p"
  shows "update_email payload p =
           p\<lparr>email := or_None (strip (lower e)), email_verified_at := None,
             verify_email_code_hash := None, verify_expires_at := None,
             verify_requested_at := None\<rparr>"
  using assms by (simp add: update_email_def)

lemma update_phone_changed:
  assumes "payload_phoneE164 payload = Some ph" and "Some ph \<noteq> phone_e164 p"
  shows "update_phone payload p =
           p\<lparr>phone_e164 := or_None (strip ph), phone_verified_at := None,
             verify_phone_code_hash := None, verify_expires_at := None,
             verify_requested_at := None\<rparr>"
  using assms by (simp add: update_phone_def)

lemma update_phone_frame:
  "email (update_phone payload p) = email p"
  "email_verified_at (update_phone payload p) = email_verified_at p"
  "verify_email_code_hash (update_phone payload p) = verify_email_code_hash p"
  "verify_expires_at p = None \<Longrightarrow> verify_expires_at (update_phone payload p) = None"
  "verify_requested_at p = None \<Longrightarrow> verify_requested_at (update_phone payload p) = None"
  by (simp_all add: update_phone_def split: option.split)

lemma update_email_frame:
  "phone_e164 (update_email payload p) = phone_e164 p"
  "phone_verified_at (update_email payload p) = phone_verified_at p"
  "verify_phone_code_hash (update_email payload p) = verify_phone_code_hash p"
  by (simp_all add: update_email_def split: option.split)






text \<open>
  C5: for an existing account, an update whose email (or phone) value is present and
  differs from the stored one stores that value normalised and clears the channel's
  verified timestamp, the channel's pending hash, and the shared expiry and request
  timestamp.
\<close>

theorem update_profile_resets_verification:
  assumes "select_account (session_factory db) uname = Some account"
  shows "(payload_email payload = Some e
            \<and> Some e \<noteq> email (visible_profile db (account_id account)) \<longrightarrow>
            (\<exists>profile'.
               fst (update_profile db uname payload) = Inr (to_out account profile')
               \<and> profiles (snd (update_profile db uname payload)) (account_id account)
                   = Some profile'
               \<and> email profile' = or_None (strip (lower e))
               \<and> email_verified_at profile' = None
               \<and> verify_email_code_hash profile' = None
               \<and> verify_expires_at profile' = None
               \<and> verify_requested_at profile' = None))
       \<and> (payload_phoneE164 payload = Some ph
            \<and> Some ph \<noteq> phone_e164 (visible_profile db (account_id account)) \<longrightarrow>
            (\<exists>profile'.
               fst (update_profile db uname payload) = Inr (to_out account profile')
               \<and> profiles (snd (update_profile db uname payload)) (account_id account)
                   = Some profile'
               \<and> phone_e164 profile' = or_None (strip ph)
               \<and> phone_verified_at profile' = None
               \<and> verify_phone_code_hash profile' = None
               \<and> verify_expires_at profile' = None
               \<and> verify_requested_at profile' = None))"
proof -
  let ?p = "visible_profile db (account_id account)"
  have "email (update_phone payload (update_email payload ?p)) = or_None (strip (lower e))
        \<and> email_verified_at (update_phone payload (update_email payload ?p)) = None
        \<and> verify_email_code_hash (update_phone payload (update_email payload ?p)) = None
        \<and> verify_expires_at (update_phone payload (update_email payload ?p)) = None
        \<and> verify_requested_at (update_phone payload (update_email payload ?p)) = None"
    if "payload_email payload = Some e" and "Some e \<noteq> email ?p"
    by (simp add: update_email_changed [OF that] update_phone_frame)
  moreover have "phone_e164 (update_phone payload (update_email payload ?p)) = or_None (strip ph)
        \<and> phone_verified_at (update_phone payload (update_email payload ?p)) = None
        \<and> verify_phone_code_hash (update_phone payload (update_email payload ?p)) = None
        \<and> verify_expires_at (update_phone payload (update_email payload ?p)) = None
        \<and> verify_requested_at (update_phone payload (update_email payload ?p)) = None"
    if "payload_phoneE164 payload = Some ph" and "Some ph \<noteq> phone_e164 ?p"
  proof -
    from that(2) have "Some ph \<noteq> phone_e164 (update_email payload ?p)"
      by (simp add: update_email_frame)
    from update_phone_changed [OF that(1) this] show ?thesis
      by simp
  qed
  ultimately show ?thesis
    by (simp add: update_profile_eq [OF assms] Let_def)
qed

theorem update_profile_resets_verification_witness:
  "select_account (session_factory sample_db) ''alice'' = Some alice
   \<and> payload_email sample_payload = Some ''New@X.com ''
   \<and> Some ''New@X.com '' \<noteq> email (visible_profile sample_db (account_id alice))
   \<and> email_verified_at (visible_profile sample_db (account_id alice)) = Some 50
   \<and> (\<exists>profile'.
         fst (update_profile sample_db ''alice'' sample_payload) = Inr (to_out alice profile')
         \<and> profiles (snd (update_profile sample_db ''alice'' sample_payload)) (account_id alice)
             = Some profile'
         \<and> email profile' = Some ''new@x.com''
         \<and> email_verified_at profile' = None
         \<and> verify_email_code_hash profile' = None
         \<and> verify_expires_at profile' = None
         \<and> verify_requested_at profile' = None)
   \<and> select_account (session_factory sample_db) ''bob'' = Some bob
   \<and> payload_phoneE164 phone_payload = Some ''+15550199''
   \<and> Some ''+15550199'' \<noteq> phone_e164 (visible_profile sample_db (account_id bob))
   \<and> (\<exists>profile'.
         fst (update_profile sample_db ''bob'' phone_payload) = Inr (to_out bob profile')
         \<and> profiles (snd (update_profile sample_db ''bob'' phone_payload)) (account_id bob)
             = Some profile'
         \<and> phone_e164 profile' = Some ''+15550199''
         \<and> phone_verified_at profile' = None
         \<and> verify_phone_code_hash profile' = None
         \<and> verify_expires_at profile' = None
         \<and> verify_requested_at profile' = None)"
proof -
  have a: "select_account (session_factory sample_db) ''alice'' = Some alice"
    by code_simp
  have b: "select_account (session_factory sample_db) ''bob'' = Some bob"
    by code_simp
  have pe: "payload_email sample_payload = Some ''New@X.com ''"
    and pp: "payload_phoneE164 phone_payload = Some ''+15550199''"
    by (simp_all add: sample_payload_def phone_payload_def)
  have de: "Some ''New@X.com '' \<noteq> email (visible_profile sample_db (account_id alice))"
    by code_simp
  have dp: "Some ''+15550199'' \<noteq> phone_e164 (visible_profile sample_db (account_id bob))"
    by code_simp
  have va: "email_verified_at (visible_profile sample_db (account_id alice)) = Some 50"
    by code_simp
  have ne: "or_None (strip (lower ''New@X.com '')) = Some ''new@x.com''"
    by code_simp
  have np: "or_None (strip ''+15550199'') = Some ''+15550199''"
    by code_simp
  show ?thesis
    using a b pe pp de dp va
      update_profile_resets_verification [OF a, of sample_payload "''New@X.com ''"]
      update_profile_resets_verification [OF b, of phone_payload _ "''+15550199''"]
    by (simp add: ne np)
qed



text \<open>
  C9: for an existing account whose email is verified, a successful
  \<^verbatim>\<open>request_email_code\<close> with a new email value stores that value, lowercased and
  trimmed, and leaves the email verified timestamp as it was; the same change through
  \<^verbatim>\<open>update_profile\<close> clears it.
\<close>

theorem request_email_code_keeps_verified:
  assumes "select_account (session_factory db) uname = Some account"
    and "profiles db (account_id account) = Some profile"
    and "email_verified_at profile = Some verified"
    and "\<not> rate_limited now profile"
  shows "fst (request_email_code hp now r db uname v) = Inr ()
       \<and> (\<exists>profile'.
            profiles (snd (request_email_code hp now r db uname v)) (account_id account)
              = Some profile'
            \<and> email profile' = Some (strip (lower v))
            \<and> email_verified_at profile' = Some verified)
       \<and> (payload_email payload = Some v \<and> Some v \<noteq> email profile \<longrightarrow>
            (\<exists>profile'.
               profiles (snd (update_profile db uname payload)) (account_id account)
                 = Some profile'
               \<and> email profile' = or_None (strip (lower v))
               \<and> email_verified_at profile' = None))"
proof -
  have vis: "visible_profile db (account_id account) = profile"
    using assms(2) by (simp add: visible_profile_eq)
  have "email (update_phone payload (update_email payload profile)) = or_None (strip (lower v))
        \<and> email_verified_at (update_phone payload (update_email payload profile)) = None"
    if "payload_email payload = Some v" and "Some v \<noteq> email profile"
    by (simp add: update_email_changed [OF that] update_phone_frame)
  then show ?thesis
    using assms(3,4)
    by (simp add: request_email_code_eq [OF assms(1)] update_profile_eq [OF assms(1)] vis Let_def)
qed

theorem request_email_code_keeps_verified_witness:
  "select_account (session_factory sample_db) ''alice'' = Some alice
   \<and> profiles sample_db (account_id alice) = Some alice_profile
   \<and> email_verified_at alice_profile = Some 50
   \<and> \<not> rate_limited 60000100 alice_profile
   \<and> fst (request_email_code sample_hash 60000100 42 sample_db ''alice'' ''New@X.com '') = Inr ()
   \<and> (\<exists>profile'.
         profiles (snd (request_email_code sample_hash 60000100 42 sample_db ''alice''
                          ''New@X.com '')) (account_id alice) = Some profile'
         \<and> email profile' = Some ''new@x.com''
         \<and> email_verified_at profile' = Some 50)
   \<and> payload_email sample_payload = Some ''New@X.com ''
   \<and> Some ''New@X.com '' \<noteq> email alice_profile
   \<and> (\<exists>profile'.
         profiles (snd (update_profile sample_db ''alice'' sample_payload)) (account_id alice)
           = Some profile'
         \<and> email profile' = Some ''new@x.com''
         \<and> email_verified_at profile' = None)"
proof -
  have a: "select_account (session_factory sample_db) ''alice'' = Some alice"
    by code_simp
  have pa: "profiles sample_db (account_id alice) = Some alice_profile"
    by (simp add: sample_db_def alice_def)
  have va: "email_verified_at alice_profile = Some 50"
    by (simp add: alice_profile_def)
  have free: "\<not> rate_limited 60000100 alice_profile"
    by code_simp
  have pe: "payload_email sample_payload = Some ''New@X.com ''"
    by (simp add: sample_payload_def)
  have de: "Some ''New@X.com '' \<noteq> email alice_profile"
    by code_simp
  have ne: "strip (lower ''New@X.com '') = ''new@x.com''"
    by code_simp
  show ?thesis
    using a pa va free pe de
      request_email_code_keeps_verified [OF a pa va free, of sample_hash 42 "''New@X.com ''"
        sample_payload]
    by (simp add: ne or_None_def)
qed

section \<open>The notification feed\<close>

lemma distinct_map_insort_key:
  "distinct (map g (insort_key f x ys)) \<longleftrightarrow> g x \<notin> g ` set ys \<and> distinct (map g ys)"
  by (induction ys) (auto simp: set_insort_key)

lemma distinct_map_sort_key:
  "distinct (map g (sort_key f xs)) \<longleftrightarrow> distinct (map g xs)"
  by (induction xs) (simp_all add: distinct_map_insort_key)

lemma order_by_desc_sorted:
  "sorted_wrt (\<lambda>a b. created_at b \<le> created_at a) (order_by_created_at_desc ns)"
proof -
  have "sorted (map (\<lambda>n. - created_at n) (order_by_created_at_desc ns))"
    unfolding order_by_created_at_desc_def by (rule sorted_sort_key)
  then show ?thesis
    by (simp add: sorted_wrt_map)
qed

lemma order_by_desc_strict:
  assumes "distinct (map created_at ns)"
  shows "sorted_wrt (\<lambda>a b. created_at b < created_at a) (order_by_created_at_desc ns)"
proof -
  let ?xs = "order_by_created_at_desc ns"
  have "distinct (map created_at ?xs)"
    using assms by (simp add: order_by_created_at_desc_def distinct_map_sort_key)
  then have "distinct (map uminus (map created_at ?xs))"
    by (simp add: distinct_map inj_on_def del: map_map)
  then have d: "distinct (map (\<lambda>n. - created_at n) ?xs)"
    by (simp add: comp_def)
  have "sorted (map (\<lambda>n. - created_at n) ?xs)"
    unfolding order_by_created_at_desc_def by (rule sorted_sort_key)
  with d have "sorted_wrt (<) (map (\<lambda>n. - created_at n) ?xs)"
    by (simp add: strict_sorted_iff)
  then show ?thesis
    by (simp add: sorted_wrt_map)
qed

lemma select_notifications_eq:
  "select_notifications db uid = take 50 (order_by_created_at_desc (notifications_of db uid))"
  by (simp add: select_notifications_def notifications_of_def)

lemma set_select_notifications:
  "set (select_notifications db uid) \<subseteq> set (notifications_of db uid)"
proof -
  have "set (select_notifications db uid)
          \<subseteq> set (order_by_created_at_desc (notifications_of db uid))"
    unfolding select_notifications_eq by (rule set_take_subset)
  then show ?thesis
    by (simp add: order_by_created_at_desc_def)
qed

lemma select_notifications_newest:
  assumes "n \<in> set (select_notifications db uid)"
    and "m \<in> set (notifications_of db uid)"
    and "m \<notin> set (select_notifications db uid)"
  shows "created_at m \<le> created_at n"
proof -
  let ?xs = "order_by_created_at_desc (notifications_of db uid)"
  have "sorted_wrt (\<lambda>a b. created_at b \<le> created_at a) (take 50 ?xs @ drop 50 ?xs)"
    using order_by_desc_sorted [of "notifications_of db uid"] by simp
  then have later: "\<forall>x \<in> set (take 50 ?xs). \<forall>y \<in> set (drop 50 ?xs). created_at y \<le> created_at x"
    unfolding sorted_wrt_append by blast
  have "m \<in> set ?xs"
    using assms(2) by (simp add: order_by_created_at_desc_def)
  then have "m \<in> set (take 50 ?xs) \<union> set (drop 50 ?xs)"
    by (metis append_take_drop_id set_append)
  with assms(3) have "m \<in> set (drop 50 ?xs)"
    by (simp add: select_notifications_eq)
  with later assms(1) show ?thesis
    by (simp add: select_notifications_eq)
qed

text \<open>
  C7, as the specification states it, fails where it says that the order is strict: two
  of the notifications of \<^verbatim>\<open>alice\<close> have the same creation time, both are returned, and
  the page is not strictly descending.
\<close>

theorem list_notifications_ties_not_strict:
  "get_user sample_db ''alice'' = Inr alice
   \<and> list_notifications sample_db ''alice'' =
       Inr [\<lparr>nout_id = ''n3'', nout_type = ''warn'', nout_data = [(''k'', ''v'')],
             nout_createdAt = 30, nout_readAt = Some 40\<rparr>,
            \<lparr>nout_id = ''n4'', nout_type = ''info'', nout_data = [],
             nout_createdAt = 30, nout_readAt = None\<rparr>,
            \<lparr>nout_id = ''n1'', nout_type = ''info'', nout_data = [],
             nout_createdAt = 10, nout_readAt = None\<rparr>]
   \<and> \<not> strictly_newest_first
         [\<lparr>nout_id = ''n3'', nout_type = ''warn'', nout_data = [(''k'', ''v'')],
            nout_createdAt = 30, nout_readAt = Some 40\<rparr>,
          \<lparr>nout_id = ''n4'', nout_type = ''info'', nout_data = [],
            nout_createdAt = 30, nout_readAt = None\<rparr>,
          \<lparr>nout_id = ''n1'', nout_type = ''info'', nout_data = [],
            nout_createdAt = 10, nout_readAt = None\<rparr>]"
  by code_simp

text \<open>
  C7, amended: for every existing account the feed is returned and holds the smaller of
  50 and the number of the user's notifications, so never more than 50 items. The items
  are the views of rows of that user, and every row left out is no newer than any row
  returned. The order is by descending creation time: no item is older than a later
  one, and the order is strictly descending whenever the user's creation times are
  pairwise different. The payload of an item is the empty map when the payload of its
  row is null.
\<close>

theorem list_notifications_page:
  assumes "get_user db uname = Inr user"
  shows "\<exists>items.
           list_notifications db uname = Inr items
         \<and> items = map notification_out (select_notifications db (account_id user))
         \<and> length items \<le> 50
         \<and> length items = min 50 (length (notifications_of db (account_id user)))
         \<and> set (select_notifications db (account_id user))
              \<subseteq> set (notifications_of db (account_id user))
         \<and> (\<forall>n \<in> set (select_notifications db (account_id user)).
              \<forall>m \<in> set (notifications_of db (account_id user))
                     - set (select_notifications db (account_id user)).
                created_at m \<le> created_at n)
         \<and> newest_first items
         \<and> (distinct (map created_at (notifications_of db (account_id user))) \<longrightarrow>
              strictly_newest_first items)
         \<and> (\<forall>i < length items.
              notif_data (select_notifications db (account_id user) ! i) = None \<longrightarrow>
              nout_data (items ! i) = [])"
proof -
  let ?rows = "select_notifications db (account_id user)"
  let ?items = "map notification_out ?rows"
  have page: "list_notifications db uname = Inr ?items"
    using assms by (simp add: list_notifications_def)
  have len: "length ?items = min 50 (length (notifications_of db (account_id user)))"
    by (simp add: select_notifications_eq order_by_created_at_desc_def min.commute)
  then have cap: "length ?items \<le> 50"
    by simp
  have newest_rows: "\<forall>n \<in> set ?rows.
      \<forall>m \<in> set (notifications_of db (account_id user)) - set ?rows.
        created_at m \<le> created_at n"
    by (blast intro: select_notifications_newest)
  have "sorted_wrt (\<lambda>a b. created_at b \<le> created_at a) ?rows"
    unfolding select_notifications_eq by (rule sorted_wrt_take) (rule order_by_desc_sorted)
  then have newest: "newest_first ?items"
    by (simp add: newest_first_def sorted_wrt_map notification_out_def)
  have strict: "strictly_newest_first ?items"
    if "distinct (map created_at (notifications_of db (account_id user)))"
  proof -
    have "sorted_wrt (\<lambda>a b. created_at b < created_at a) ?rows"
      unfolding select_notifications_eq
      by (rule sorted_wrt_take) (rule order_by_desc_strict [OF that])
    then show ?thesis
      by (simp add: strictly_newest_first_def sorted_wrt_map notification_out_def)
  qed
  have payload: "\<forall>i < length ?items. notif_data (?rows ! i) = None \<longrightarrow> nout_data (?items ! i) = []"
    by (simp add: notification_out_def)
  from page len cap set_select_notifications newest_rows newest strict payload
  show ?thesis
    by (intro exI [of _ ?items] conjI impI) simp_all
qed

theorem list_notifications_page_witness:
  "get_user busy_db ''alice'' = Inr alice
   \<and> length (notifications_of busy_db (account_id alice)) = 51
   \<and> distinct (map created_at (notifications_of busy_db (account_id alice)))
   \<and> (\<exists>items.
         list_notifications busy_db ''alice'' = Inr items
         \<and> length items = 50
         \<and> newest_first items
         \<and> strictly_newest_first items)
   \<and> get_user sample_db ''alice'' = Inr alice
   \<and> length (notifications_of sample_db (account_id alice)) = 3
   \<and> notif_data (select_notifications sample_db (account_id alice) ! 2) = None
   \<and> (\<exists>items.
         list_notifications sample_db ''alice'' = Inr items
         \<and> length items = 3
         \<and> newest_first items
         \<and> nout_data (items ! 2) = [])"
proof -
  have ub: "get_user busy_db ''alice'' = Inr alice"
    by code_simp
  have nb: "length (notifications_of busy_db (account_id alice)) = 51"
    by code_simp
  have db: "distinct (map created_at (notifications_of busy_db (account_id alice)))"
    by code_simp
  have ua: "get_user sample_db ''alice'' = Inr alice"
    by code_simp
  have na: "length (notifications_of sample_db (account_id alice)) = 3"
    by code_simp
  have pa: "notif_data (select_notifications sample_db (account_id alice) ! 2) = None"
    by code_simp
  from list_notifications_page [OF ub] obtain busy_items where
    b1: "list_notifications busy_db ''alice'' = Inr busy_items"
    and b2: "length busy_items = min 50 (length (notifications_of busy_db (account_id alice)))"
    and b3: "newest_first busy_items"
    and b4: "distinct (map created_at (notifications_of busy_db (account_id alice))) \<longrightarrow>
               strictly_newest_first busy_items"
    by blast
  from list_notifications_page [OF ua] obtain items where
    a1: "list_notifications sample_db ''alice'' = Inr items"
    and a2: "length items = min 50 (length (notifications_of sample_db (account_id alice)))"
    and a3: "newest_first items"
    and a4: "\<forall>i < length items.
               notif_data (select_notifications sample_db (account_id alice) ! i) = None \<longrightarrow>
               nout_data (items ! i) = []"
    by blast
  have busy: "\<exists>items.
         list_notifications busy_db ''alice'' = Inr items
         \<and> length items = 50
         \<and> newest_first items
         \<and> strictly_newest_first items"
    using b1 b2 b3 b4 nb db by simp
  have small: "\<exists>items.
         list_notifications sample_db ''alice'' = Inr items
         \<and> length items = 3
         \<and> newest_first items
         \<and> nout_data (items ! 2) = []"
    using a1 a2 a3 a4 na pa by simp
  from ub nb db busy ua na pa small show ?thesis
    by (intro conjI)
qed

end
